theory Spec2Isabelle
  imports Main
begin

section \<open>The attachment modal: data model\<close>

text \<open>
  The component under study is \<^verbatim>\<open>AttachmentModal\<close>. Its hooks
  (\<^verbatim>\<open>useState\<close>, \<^verbatim>\<open>useRef\<close>) become one record of state; every
  callback becomes a function from the state it is called in to the state it leaves,
  together with the list of calls it makes to collaborators, in the order made.
  A callback that would throw a \<^verbatim>\<open>TypeError\<close> returns \<open>Inl\<close>.
\<close>

datatype js_error = TypeError

datatype modal_type = CENTERED | CENTERED_UNSWIPEABLE

text \<open>
  The source shown: \<^verbatim>\<open>undefined\<close>, a URL string, or a function (an SVG component,
  identified here by a number).
\<close>

datatype attachment_source = No_source | Url string | Svg_function nat

text \<open>
  A file-like object. A property that may be missing is an option. \<open>is_File\<close> is the
  outcome of \<^verbatim>\<open>instanceof File\<close>; \<open>file_source\<close> is the property that
  \<^verbatim>\<open>lodashExtend(file, {source})\<close> writes.
\<close>

record file_object =
  file_name :: "string option"
  file_size :: "nat option"
  file_uri :: "string option"
  file_type :: "string option"
  file_source :: "attachment_source option"
  is_File :: bool

text \<open>The entry returned by \<^verbatim>\<open>webkitGetAsEntry()\<close>.\<close>

record fs_entry =
  isDirectory :: bool

text \<open>
  What \<^verbatim>\<open>displayFileInModal\<close> receives. For each of the two methods the outer option
  says whether the property is a function, the inner one what the call returns
  (\<open>None\<close> for \<^verbatim>\<open>null\<close>). \<open>as_file_object\<close> is the object itself read as a
  file, used when \<^verbatim>\<open>getAsFile\<close> is not a function.
\<close>

record data_payload =
  webkitGetAsEntry :: "fs_entry option option"
  getAsFile :: "file_object option option"
  as_file_object :: file_object

text \<open>The attachment the carousel hands to \<^verbatim>\<open>onNavigate\<close>.\<close>

record carousel_attachment =
  att_source :: attachment_source
  att_isAuthTokenRequired :: bool
  att_file :: "file_object option"
  att_isReceipt :: bool

text \<open>
  The callback held by \<^verbatim>\<open>onModalHideCallbackRef\<close>: the only one the component ever
  stores navigates to the edit-request route of a report, field receipt.
\<close>

datatype deferred_action = Navigate_edit_receipt "string option"

text \<open>Calls to collaborators, recorded in the order they are made.\<close>

datatype effect =
    Props_onModalShow
  | Props_onModalHide
  | Props_onConfirm file_object
  | Props_onCarouselAttachmentChange carousel_attachment
  | Navigation_navigate_EDIT_REQUEST "string option"
  | Navigation_dismissModal "string option"
  | IOU_detachReceipt "string option" "string option"
  | FileDownload attachment_source "string option"
  | Keyboard_dismiss
  | Animated_timing nat nat

record state =
  onModalHideCallbackRef :: "deferred_action option"
  isModalOpen :: bool
  shouldLoadAttachment :: bool
  isAttachmentInvalid :: bool
  isDeleteReceiptConfirmModalVisible :: bool
  isAuthTokenRequired :: bool
  isAttachmentReceipt :: bool
  attachmentInvalidReasonTitle :: string
  attachmentInvalidReason :: "string option"
  source :: attachment_source
  modalType :: modal_type
  isConfirmButtonDisabled :: bool
  shouldShowDownloadButton :: bool
  file_state :: "file_object option"

text \<open>
  The records the component reads from its props. Only the fields the component itself
  touches are kept; everything else about them is seen through library predicates.
\<close>

record report =
  reportID :: "string option"
  parentReportActionID :: "string option"

text \<open>
  An account id as a JavaScript value: the property may be missing, \<^verbatim>\<open>null\<close> or a
  number. Strict equality \<^verbatim>\<open>===\<close> on these values is equality of the datatype.
\<close>

datatype account_id = Id_undefined | Id_null | Id_number int

record report_action =
  actorAccountID :: account_id

record transaction =
  transactionID :: "string option"

type_synonym policy = string

text \<open>
  The props, fixed for the lifetime of the component. \<open>onConfirm_given\<close> is the
  truthiness of \<^verbatim>\<open>props.onConfirm\<close>; \<open>session_accountID\<close> is the property
  \<^verbatim>\<open>accountID\<close> of \<^verbatim>\<open>props.session\<close>, missing also when there is no session.
\<close>

record props =
  props_source :: attachment_source
  onConfirm_given :: bool
  defaultOpen :: bool
  originalFileName :: string
  props_isAuthTokenRequired :: bool
  props_report :: report
  props_transaction :: transaction
  parentReport :: "report option"
  parentReportActions :: "(string \<Rightarrow> report_action option) option"
  props_policy :: "policy option"
  session_accountID :: account_id

text \<open>
  Constants and library routines the component imports and this repository does not
  contain (\<^verbatim>\<open>CONST.API_ATTACHMENT_VALIDATIONS\<close>, \<^verbatim>\<open>Str.isPDF\<close>,
  \<^verbatim>\<open>translate\<close>, \<^verbatim>\<open>FileUtils.cleanFileName\<close>, \<^verbatim>\<open>URL.createObjectURL\<close>,
  \<^verbatim>\<open>addEncryptedAuthTokenToURL\<close>, and the predicates of
  \<^verbatim>\<open>ReportActionsUtils\<close>, \<^verbatim>\<open>ReportUtils\<close>, \<^verbatim>\<open>Policy\<close> and
  \<^verbatim>\<open>TransactionUtils\<close>) are parameters.
\<close>

record externals =
  MAX_SIZE :: nat
  MIN_SIZE :: nat
  isPDF :: "string \<Rightarrow> bool"
  unknownFilename :: string
  cleanFileName :: "string option \<Rightarrow> string"
  createObjectURL :: "file_object \<Rightarrow> string"
  addEncryptedAuthTokenToURL :: "attachment_source \<Rightarrow> attachment_source"
  isDeletedAction :: "report_action option \<Rightarrow> bool"
  isSettled :: "string option \<Rightarrow> bool"
  isAdminOfFreePolicy :: "policy option \<Rightarrow> bool"
  isExpenseReport :: "report \<Rightarrow> bool"
  isMoneyRequestReport :: "report \<Rightarrow> bool"
  hasReceipt :: "transaction \<Rightarrow> bool"
  isReceiptBeingScanned :: "transaction \<Rightarrow> bool"

section \<open>File validation\<close>

text \<open>\<^verbatim>\<open>lodashGet(_file, 'size', 0)\<close>\<close>

definition lodashGet_size :: "file_object \<Rightarrow> nat" where
  "lodashGet_size f = (case file_size f of None \<Rightarrow> 0 | Some n \<Rightarrow> n)"

definition isValidFile :: "externals \<Rightarrow> file_object \<Rightarrow> state \<Rightarrow> bool \<times> state" where
  "isValidFile x f s =
     (if lodashGet_size f > MAX_SIZE x then
        (False, s\<lparr>isAttachmentInvalid := True,
                   attachmentInvalidReasonTitle := ''attachmentPicker.attachmentTooLarge'',
                   attachmentInvalidReason := Some ''attachmentPicker.sizeExceeded''\<rparr>)
      else if lodashGet_size f < MIN_SIZE x then
        (False, s\<lparr>isAttachmentInvalid := True,
                   attachmentInvalidReasonTitle := ''attachmentPicker.attachmentTooSmall'',
                   attachmentInvalidReason := Some ''attachmentPicker.sizeNotMet''\<rparr>)
      else (True, s))"

text \<open>
  \<^verbatim>\<open>_data.webkitGetAsEntry().isDirectory\<close> throws when the call returns
  \<^verbatim>\<open>null\<close>.
\<close>

definition isDirectoryCheck :: "data_payload \<Rightarrow> state \<Rightarrow> js_error + bool \<times> state" where
  "isDirectoryCheck d s =
     (case webkitGetAsEntry d of
        None \<Rightarrow> Inr (True, s)
      | Some None \<Rightarrow> Inl TypeError
      | Some (Some e) \<Rightarrow>
          if isDirectory e then
            Inr (False, s\<lparr>isAttachmentInvalid := True,
                          attachmentInvalidReasonTitle := ''attachmentPicker.attachmentError'',
                          attachmentInvalidReason := Some ''attachmentPicker.folderNotAllowedMessage''\<rparr>)
          else Inr (True, s))"

text \<open>\<^verbatim>\<open>_file.name || translate('attachmentView.unknownFilename')\<close>\<close>

definition name_or_unknown :: "externals \<Rightarrow> file_object \<Rightarrow> string" where
  "name_or_unknown x f =
     (case file_name f of
        None \<Rightarrow> unknownFilename x
      | Some n \<Rightarrow> if n = [] then unknownFilename x else n)"

definition getModalType :: "externals \<Rightarrow> string option \<Rightarrow> file_object option \<Rightarrow> modal_type" where
  "getModalType x sourceURL a_file =
     (case sourceURL of
        None \<Rightarrow> CENTERED
      | Some u \<Rightarrow>
          if u \<noteq> [] \<and>
             (isPDF x u \<or> (case a_file of None \<Rightarrow> False | Some f \<Rightarrow> isPDF x (name_or_unknown x f)))
          then CENTERED_UNSWIPEABLE else CENTERED)"

text \<open>
  \<^verbatim>\<open>new File([updatedFile], cleanName, {type: updatedFile.type})\<close>: same bytes and
  type under the new name; properties added to the old object are not carried over.
\<close>

definition renamed_File :: "file_object \<Rightarrow> string \<Rightarrow> file_object" where
  "renamed_File f cleanName =
     \<lparr>file_name = Some cleanName, file_size = file_size f, file_uri = None,
      file_type = file_type f, file_source = None, is_File = True\<rparr>"

text \<open>The object that goes through the size check: \<^verbatim>\<open>_data.getAsFile()\<close> or \<^verbatim>\<open>_data\<close>.\<close>

definition fileObject_of :: "data_payload \<Rightarrow> file_object option" where
  "fileObject_of d =
     (case getAsFile d of None \<Rightarrow> Some (as_file_object d) | Some r \<Rightarrow> r)"

definition display_valid_file :: "externals \<Rightarrow> file_object \<Rightarrow> state \<Rightarrow> state" where
  "display_valid_file x fileObject s =
     (if is_File fileObject then
        (let cleanName = cleanFileName x (file_name fileObject);
             updatedFile = (if file_name fileObject \<noteq> Some cleanName
                            then renamed_File fileObject cleanName else fileObject);
             inputSource = createObjectURL x updatedFile;
             inputModalType = getModalType x (Some inputSource) (Some updatedFile)
         in s\<lparr>isModalOpen := True, source := Url inputSource,
               file_state := Some updatedFile, modalType := inputModalType\<rparr>)
      else
        (let inputModalType = getModalType x (file_uri fileObject) (Some fileObject)
         in s\<lparr>isModalOpen := True,
               source := (case file_uri fileObject of None \<Rightarrow> No_source | Some u \<Rightarrow> Url u),
               file_state := Some fileObject, modalType := inputModalType\<rparr>))"

definition validateAndDisplayFileToUpload ::
    "externals \<Rightarrow> data_payload \<Rightarrow> state \<Rightarrow> js_error + state" where
  "validateAndDisplayFileToUpload x d s =
     (case isDirectoryCheck d s of
        Inl e \<Rightarrow> Inl e
      | Inr (ok, s1) \<Rightarrow>
          if \<not> ok then Inr s1
          else (case fileObject_of d of
                  None \<Rightarrow> Inr s1
                | Some fileObject \<Rightarrow>
                    (case isValidFile x fileObject s1 of
                       (valid, s2) \<Rightarrow>
                         if \<not> valid then Inr s2
                         else Inr (display_valid_file x fileObject s2))))"

section \<open>The callbacks of the component\<close>

definition initial_state :: "props \<Rightarrow> state" where
  "initial_state p =
     \<lparr>onModalHideCallbackRef = None,
      isModalOpen = defaultOpen p,
      shouldLoadAttachment = False,
      isAttachmentInvalid = False,
      isDeleteReceiptConfirmModalVisible = False,
      isAuthTokenRequired = props_isAuthTokenRequired p,
      isAttachmentReceipt = False,
      attachmentInvalidReasonTitle = [],
      attachmentInvalidReason = None,
      source = props_source p,
      modalType = CENTERED_UNSWIPEABLE,
      isConfirmButtonDisabled = False,
      shouldShowDownloadButton = True,
      file_state =
        (if originalFileName p \<noteq> []
         then Some \<lparr>file_name = Some (originalFileName p), file_size = None, file_uri = None,
                    file_type = None, file_source = None, is_File = False\<rparr>
         else None)\<rparr>"

definition onNavigate :: "carousel_attachment \<Rightarrow> state \<Rightarrow> state \<times> effect list" where
  "onNavigate attachment s =
     (s\<lparr>source := att_source attachment,
        file_state := att_file attachment,
        isAttachmentReceipt := att_isReceipt attachment,
        isAuthTokenRequired := att_isAuthTokenRequired attachment\<rparr>,
      [Props_onCarouselAttachmentChange attachment])"

definition setDownloadButtonVisibility :: "bool \<Rightarrow> state \<Rightarrow> state" where
  "setDownloadButtonVisibility shouldShowButton s =
     (if shouldShowDownloadButton s = shouldShowButton then s
      else s\<lparr>shouldShowDownloadButton := shouldShowButton\<rparr>)"

text \<open>\<^verbatim>\<open>file.name\<close> throws when no file is held.\<close>

definition downloadAttachment :: "externals \<Rightarrow> state \<Rightarrow> js_error + effect list" where
  "downloadAttachment x s =
     (let sourceURL = (if isAuthTokenRequired s then addEncryptedAuthTokenToURL x (source s)
                       else source s)
      in case file_state s of
           None \<Rightarrow> Inl TypeError
         | Some f \<Rightarrow> Inr [FileDownload sourceURL (file_name f), Keyboard_dismiss])"

text \<open>
  \<^verbatim>\<open>lodashExtend(file, {source})\<close> writes the property into the object it is given and
  returns that object; given \<^verbatim>\<open>undefined\<close> it returns a fresh object.
\<close>

definition lodashExtend :: "file_object option \<Rightarrow> attachment_source \<Rightarrow> file_object" where
  "lodashExtend f src =
     (case f of
        None \<Rightarrow> \<lparr>file_name = None, file_size = None, file_uri = None, file_type = None,
                  file_source = Some src, is_File = False\<rparr>
      | Some g \<Rightarrow> g\<lparr>file_source := Some src\<rparr>)"

definition submitAndClose :: "props \<Rightarrow> state \<Rightarrow> state \<times> effect list" where
  "submitAndClose p s =
     (if \<not> isModalOpen s \<or> isConfirmButtonDisabled s then (s, [])
      else if onConfirm_given p then
        (s\<lparr>file_state := map_option (\<lambda>g. lodashExtend (Some g) (source s)) (file_state s),
           isModalOpen := False\<rparr>,
         [Props_onConfirm (lodashExtend (file_state s) (source s))])
      else (s\<lparr>isModalOpen := False\<rparr>, []))"

definition closeConfirmModal :: "state \<Rightarrow> state" where
  "closeConfirmModal s =
     s\<lparr>isAttachmentInvalid := False, isDeleteReceiptConfirmModalVisible := False\<rparr>"

definition deleteAndCloseModal :: "props \<Rightarrow> state \<Rightarrow> state \<times> effect list" where
  "deleteAndCloseModal p s =
     (s\<lparr>isDeleteReceiptConfirmModalVisible := False\<rparr>,
      [IOU_detachReceipt (transactionID (props_transaction p)) (reportID (props_report p)),
       Navigation_dismissModal (reportID (props_report p))])"

definition updateConfirmButtonVisibility :: "bool \<Rightarrow> state \<Rightarrow> state \<times> effect list" where
  "updateConfirmButtonVisibility shouldFadeOut s =
     (s\<lparr>isConfirmButtonDisabled := shouldFadeOut\<rparr>,
      [Animated_timing (if shouldFadeOut then 0 else 1) 100])"

definition closeModal :: "state \<Rightarrow> state" where
  "closeModal s = s\<lparr>isModalOpen := False\<rparr>"

definition openModal :: "state \<Rightarrow> state" where
  "openModal s = s\<lparr>isModalOpen := True\<rparr>"

subsection \<open>The receipt menu\<close>

datatype menu_item = Replace | Download | Delete_receipt

text \<open>The translation key of an item's text.\<close>

fun menu_text :: "menu_item \<Rightarrow> string" where
  "menu_text Replace = ''common.replace''"
| "menu_text Download = ''common.download''"
| "menu_text Delete_receipt = ''receipt.deleteReceipt''"

text \<open>
  \<^verbatim>\<open>props.parentReportActions[props.report.parentReportActionID]\<close>: a missing id
  reads the key \<^verbatim>\<open>"undefined"\<close>.
\<close>

definition parentReportAction_of ::
    "props \<Rightarrow> (string \<Rightarrow> report_action option) \<Rightarrow> report_action option" where
  "parentReportAction_of p actions =
     actions (case parentReportActionID (props_report p) of
                None \<Rightarrow> ''undefined'' | Some i \<Rightarrow> i)"

text \<open>
  \<^verbatim>\<open>lodashGet(props.session, 'accountID', null)\<close>: the default replaces a missing
  value only.
\<close>

definition lodashGet_accountID :: "props \<Rightarrow> account_id" where
  "lodashGet_accountID p =
     (case session_accountID p of Id_undefined \<Rightarrow> Id_null | v \<Rightarrow> v)"

text \<open>
  \<^verbatim>\<open>isRequestor\<close> reads \<^verbatim>\<open>parentReportAction.actorAccountID\<close> whenever the parent
  is a money request report, and throws if there is no such action. The comparison is
  \<^verbatim>\<open>===\<close>: \<^verbatim>\<open>null\<close> equals \<^verbatim>\<open>null\<close> and does not equal
  \<^verbatim>\<open>undefined\<close>.
\<close>

definition isRequestor_of ::
    "externals \<Rightarrow> props \<Rightarrow> report \<Rightarrow> report_action option \<Rightarrow> js_error + bool" where
  "isRequestor_of x p parent action =
     (if isMoneyRequestReport x parent then
        (case action of
           None \<Rightarrow> Inl TypeError
         | Some a \<Rightarrow>
             Inr (lodashGet_accountID p = actorAccountID a))
      else Inr False)"

definition threeDotsMenuItems :: "externals \<Rightarrow> props \<Rightarrow> state \<Rightarrow> js_error + menu_item list" where
  "threeDotsMenuItems x p s =
     (case (isAttachmentReceipt s, parentReport p, parentReportActions p) of
        (True, Some parent, Some actions) \<Rightarrow>
          (let parentReportAction = parentReportAction_of p actions;
               isDeleted = isDeletedAction x parentReportAction;
               settled = isSettled x (reportID parent);
               isAdmin = (isAdminOfFreePolicy x (props_policy p) \<and> isExpenseReport x parent)
           in case isRequestor_of x p parent parentReportAction of
                Inl e \<Rightarrow> Inl e
              | Inr isRequestor \<Rightarrow>
                  (let canEdit = (\<not> settled \<and> \<not> isDeleted \<and> (isAdmin \<or> isRequestor))
                   in Inr ((if canEdit then [Replace] else []) @
                           [Download] @
                           (if hasReceipt x (props_transaction p) \<and>
                               \<not> isReceiptBeingScanned x (props_transaction p)
                            then [Delete_receipt] else []))))
      | _ \<Rightarrow> Inr [])"

text \<open>
  The \<^verbatim>\<open>onSelected\<close> of each item. The menu is memoised, so the download item calls the
  \<^verbatim>\<open>downloadAttachment\<close> of the render in which the menu was computed: \<open>captured\<close>
  is the state of that render.
\<close>

fun onSelected ::
    "externals \<Rightarrow> props \<Rightarrow> state \<Rightarrow> menu_item \<Rightarrow> state \<Rightarrow> js_error + state \<times> effect list" where
  "onSelected x p captured Replace s =
     Inr (closeModal
            (s\<lparr>onModalHideCallbackRef := Some (Navigate_edit_receipt (reportID (props_report p)))\<rparr>),
          [])"
| "onSelected x p captured Download s =
     (case downloadAttachment x captured of Inl e \<Rightarrow> Inl e | Inr effs \<Rightarrow> Inr (s, effs))"
| "onSelected x p captured Delete_receipt s =
     Inr (s\<lparr>isDeleteReceiptConfirmModalVisible := True\<rparr>, [])"

subsection \<open>The hooks of the modal surface\<close>

fun run_deferred :: "deferred_action \<Rightarrow> effect list" where
  "run_deferred (Navigate_edit_receipt r) = [Navigation_navigate_EDIT_REQUEST r]"

definition modal_onModalShow :: "state \<Rightarrow> state \<times> effect list" where
  "modal_onModalShow s = (s\<lparr>shouldLoadAttachment := True\<rparr>, [Props_onModalShow])"

definition modal_onModalHide :: "state \<Rightarrow> state \<times> effect list" where
  "modal_onModalHide s =
     (s\<lparr>shouldLoadAttachment := False\<rparr>,
      Props_onModalHide #
      (case onModalHideCallbackRef s of None \<Rightarrow> [] | Some callback \<Rightarrow> run_deferred callback))"

section \<open>The component as a transition system\<close>

text \<open>
  One event is one call of a callback: by the caller through the render prop
  (\<open>Show\<close>, \<open>DisplayFileInModal\<close>), by the user through a control, by the carousel
  or the content view, or by the modal surface when a transition has finished
  (\<open>ModalShow\<close>, \<open>ModalHide\<close>). The surface is not part of this repository, so
  nothing is assumed about when it fires its hooks.
\<close>

datatype event =
    Show
  | DisplayFileInModal data_payload
  | Close
  | Submit
  | ModalShow
  | ModalHide
  | CarouselNavigate carousel_attachment
  | ToggleKeyboard bool
  | SetDownloadButtonVisibility bool
  | DownloadButtonPress
  | Select state menu_item
  | ConfirmDelete
  | CloseConfirmModal

fun handle :: "externals \<Rightarrow> props \<Rightarrow> event \<Rightarrow> state \<Rightarrow> js_error + state \<times> effect list" where
  "handle x p Show s = Inr (openModal s, [])"
| "handle x p (DisplayFileInModal d) s =
     (case validateAndDisplayFileToUpload x d s of Inl e \<Rightarrow> Inl e | Inr s' \<Rightarrow> Inr (s', []))"
| "handle x p Close s = Inr (closeModal s, [])"
| "handle x p Submit s = Inr (submitAndClose p s)"
| "handle x p ModalShow s = Inr (modal_onModalShow s)"
| "handle x p ModalHide s = Inr (modal_onModalHide s)"
| "handle x p (CarouselNavigate a) s = Inr (onNavigate a s)"
| "handle x p (ToggleKeyboard b) s = Inr (updateConfirmButtonVisibility b s)"
| "handle x p (SetDownloadButtonVisibility b) s = Inr (setDownloadButtonVisibility b s, [])"
| "handle x p DownloadButtonPress s =
     (case downloadAttachment x s of Inl e \<Rightarrow> Inl e | Inr effs \<Rightarrow> Inr (s, effs))"
| "handle x p (Select captured item) s = onSelected x p captured item s"
| "handle x p ConfirmDelete s = Inr (deleteAndCloseModal p s)"
| "handle x p CloseConfirmModal s = Inr (closeConfirmModal s, [])"

text \<open>
  A run keeps the state and the log of calls made so far. A callback that throws leaves
  both as they were.
\<close>

fun step :: "externals \<Rightarrow> props \<Rightarrow> event \<Rightarrow> state \<times> effect list \<Rightarrow> state \<times> effect list" where
  "step x p e (s, log) =
     (case handle x p e s of Inl err \<Rightarrow> (s, log) | Inr (s', effs) \<Rightarrow> (s', log @ effs))"

fun run :: "externals \<Rightarrow> props \<Rightarrow> event list \<Rightarrow> state \<times> effect list \<Rightarrow> state \<times> effect list" where
  "run x p [] c = c"
| "run x p (e # es) c = run x p es (step x p e c)"

section \<open>Vocabulary of the statements\<close>

text \<open>
  The state after an invalid-file dialog has been raised on \<open>s\<close> with the given title
  and reason keys: the three assignments every failing check makes, and nothing else.
\<close>

definition reject :: "string \<Rightarrow> string \<Rightarrow> state \<Rightarrow> state" where
  "reject title reason s =
     s\<lparr>isAttachmentInvalid := True, attachmentInvalidReasonTitle := title,
       attachmentInvalidReason := Some reason\<rparr>"

text \<open>The callback the replace item stores.\<close>

definition queued_action :: "props \<Rightarrow> deferred_action" where
  "queued_action p = Navigate_edit_receipt (reportID (props_report p))"

text \<open>The most recent hook of the modal surface in a sequence of events, if any.\<close>

fun last_hook :: "event list \<Rightarrow> event option" where
  "last_hook [] = None"
| "last_hook (e # es) =
     (case last_hook es of
        Some h \<Rightarrow> Some h
      | None \<Rightarrow> (case e of ModalShow \<Rightarrow> Some ModalShow | ModalHide \<Rightarrow> Some ModalHide | _ \<Rightarrow> None))"

subsection \<open>Concrete inputs\<close>

text \<open>
  A configuration with a maximum of 100 bytes and a minimum of 10, a receipt whose parent
  report is named by the argument of \<open>demo_props\<close> (the report named \<open>settled\<close> is
  settled), a dropped item and a picked file.
\<close>

definition demo_externals :: externals where
  "demo_externals =
     \<lparr>MAX_SIZE = 100, MIN_SIZE = 10,
      isPDF = (\<lambda>u. u = ''doc.pdf''),
      unknownFilename = ''unknown'',
      cleanFileName = (\<lambda>n. case n of None \<Rightarrow> ''fileName'' | Some m \<Rightarrow> filter (\<lambda>c. c \<noteq> CHR ''#'') m),
      createObjectURL = (\<lambda>f. ''blob:'' @ (case file_name f of None \<Rightarrow> [] | Some m \<Rightarrow> m)),
      addEncryptedAuthTokenToURL = (\<lambda>u. u),
      isDeletedAction = (\<lambda>a. a = None),
      isSettled = (\<lambda>r. r = Some ''settled''),
      isAdminOfFreePolicy = (\<lambda>pol. pol = Some ''admin''),
      isExpenseReport = (\<lambda>r. True),
      isMoneyRequestReport = (\<lambda>r. True),
      hasReceipt = (\<lambda>t. transactionID t \<noteq> None),
      isReceiptBeingScanned = (\<lambda>t. False)\<rparr>"

definition demo_parent :: "string \<Rightarrow> report" where
  "demo_parent rid = \<lparr>reportID = Some rid, parentReportActionID = None\<rparr>"

definition demo_props :: "string \<Rightarrow> props" where
  "demo_props parent_id =
     \<lparr>props_source = Url ''https://example.test/receipt.jpg'',
      onConfirm_given = True,
      defaultOpen = True,
      originalFileName = ''receipt.jpg'',
      props_isAuthTokenRequired = False,
      props_report = \<lparr>reportID = Some ''r1'', parentReportActionID = Some ''a1''\<rparr>,
      props_transaction = \<lparr>transactionID = Some ''t1''\<rparr>,
      parentReport = Some (demo_parent parent_id),
      parentReportActions =
        Some (\<lambda>k. if k = ''a1'' then Some \<lparr>actorAccountID = Id_number 7\<rparr> else None),
      props_policy = Some ''admin'',
      session_accountID = Id_number 7\<rparr>"

definition demo_receipt :: carousel_attachment where
  "demo_receipt =
     \<lparr>att_source = Url ''https://example.test/receipt.jpg'',
      att_isAuthTokenRequired = True,
      att_file = Some \<lparr>file_name = Some ''receipt.jpg'', file_size = None, file_uri = None,
                       file_type = None, file_source = None, is_File = False\<rparr>,
      att_isReceipt = True\<rparr>"

definition demo_file :: "string \<Rightarrow> nat \<Rightarrow> bool \<Rightarrow> file_object" where
  "demo_file n sz web =
     \<lparr>file_name = Some n, file_size = Some sz,
      file_uri = (if web then None else Some (''file:///tmp/'' @ n)),
      file_type = Some ''image/png'', file_source = None, is_File = web\<rparr>"

definition demo_drop :: "bool \<Rightarrow> file_object option \<Rightarrow> data_payload" where
  "demo_drop dir f =
     \<lparr>webkitGetAsEntry = Some (Some \<lparr>isDirectory = dir\<rparr>),
      getAsFile = Some f,
      as_file_object = \<lparr>file_name = None, file_size = None, file_uri = None,
                        file_type = None, file_source = None, is_File = False\<rparr>\<rparr>"

definition demo_picked :: "file_object \<Rightarrow> data_payload" where
  "demo_picked f = \<lparr>webkitGetAsEntry = None, getAsFile = None, as_file_object = f\<rparr>"

text \<open>
  A dragged item that is not a file (selected text, a link): both
  \<^verbatim>\<open>webkitGetAsEntry()\<close> and \<^verbatim>\<open>getAsFile()\<close> return \<^verbatim>\<open>null\<close>.
\<close>

definition demo_text_item :: data_payload where
  "demo_text_item =
     \<lparr>webkitGetAsEntry = Some None,
      getAsFile = Some None,
      as_file_object = \<lparr>file_name = None, file_size = None, file_uri = None,
                        file_type = None, file_source = None, is_File = False\<rparr>\<rparr>"

lemmas demo_defs = demo_externals_def demo_props_def demo_parent_def demo_receipt_def
  demo_file_def demo_drop_def demo_picked_def demo_text_item_def

lemmas callback_defs = initial_state_def openModal_def closeModal_def submitAndClose_def
  modal_onModalShow_def modal_onModalHide_def onNavigate_def lodashExtend_def
  updateConfirmButtonVisibility_def setDownloadButtonVisibility_def
  deleteAndCloseModal_def closeConfirmModal_def queued_action_def

section \<open>Facts about the size check and the pipeline\<close>

lemma isValidFile_too_large:
  "MAX_SIZE x < lodashGet_size f \<Longrightarrow>
   isValidFile x f s =
     (False, reject ''attachmentPicker.attachmentTooLarge'' ''attachmentPicker.sizeExceeded'' s)"
  by (simp add: isValidFile_def reject_def)

lemma isValidFile_too_small:
  "\<not> MAX_SIZE x < lodashGet_size f \<Longrightarrow> lodashGet_size f < MIN_SIZE x \<Longrightarrow>
   isValidFile x f s =
     (False, reject ''attachmentPicker.attachmentTooSmall'' ''attachmentPicker.sizeNotMet'' s)"
  by (simp add: isValidFile_def reject_def)

lemma isValidFile_in_bounds:
  "\<not> MAX_SIZE x < lodashGet_size f \<Longrightarrow> \<not> lodashGet_size f < MIN_SIZE x \<Longrightarrow>
   isValidFile x f s = (True, s)"
  by (simp add: isValidFile_def)

lemma validate_after_directory_check:
  "isDirectoryCheck d s = Inr (True, s) \<Longrightarrow> fileObject_of d = Some f \<Longrightarrow>
   validateAndDisplayFileToUpload x d s =
     (case isValidFile x f s of
        (valid, s2) \<Rightarrow> if \<not> valid then Inr s2 else Inr (display_valid_file x f s2))"
  by (simp add: validateAndDisplayFileToUpload_def)

lemma reject_keeps:
  "source (reject t r s) = source s"
  "file_state (reject t r s) = file_state s"
  "isModalOpen (reject t r s) = isModalOpen s"
  "modalType (reject t r s) = modalType s"
  "isAttachmentInvalid (reject t r s)"
  "attachmentInvalidReasonTitle (reject t r s) = t"
  "attachmentInvalidReason (reject t r s) = Some r"
  by (simp_all add: reject_def)

text \<open>The pipeline writes neither the loading flag nor the stored callback.\<close>

lemma validate_keeps:
  assumes "validateAndDisplayFileToUpload x d s = Inr s'"
  shows "shouldLoadAttachment s' = shouldLoadAttachment s"
    and "onModalHideCallbackRef s' = onModalHideCallbackRef s"
  using assms
  by (auto simp add: validateAndDisplayFileToUpload_def isDirectoryCheck_def isValidFile_def
        display_valid_file_def Let_def
      split: option.splits if_splits)

text \<open>
  A session without an account id and an action whose actor is \<^verbatim>\<open>null\<close> compare
  equal, \<^verbatim>\<open>null === null\<close>; an actor that is missing does not.
\<close>

lemma isRequestor_of_null_ids:
  assumes "isMoneyRequestReport x parent" and "session_accountID p = Id_undefined"
  shows "isRequestor_of x p parent (Some a) = Inr (actorAccountID a = Id_null)"
  using assms by (auto simp add: isRequestor_of_def lodashGet_accountID_def)

section \<open>Facts about single events and runs\<close>

text \<open>Only the two hooks of the surface write \<open>shouldLoadAttachment\<close>.\<close>

lemma handle_shouldLoadAttachment:
  assumes "handle x p e s = Inr (s', effs)"
  shows "shouldLoadAttachment s' =
           (case e of ModalShow \<Rightarrow> True | ModalHide \<Rightarrow> False | _ \<Rightarrow> shouldLoadAttachment s)"
proof (cases e)
  case (DisplayFileInModal d)
  with assms show ?thesis
    by (auto split: sum.splits dest: validate_keeps(1))
next
  case (Select captured item)
  with assms show ?thesis
    by (cases item) (auto simp add: closeModal_def split: sum.splits)
qed (use assms in \<open>auto simp add: openModal_def closeModal_def submitAndClose_def
      modal_onModalShow_def modal_onModalHide_def onNavigate_def
      updateConfirmButtonVisibility_def setDownloadButtonVisibility_def
      deleteAndCloseModal_def closeConfirmModal_def split: sum.splits if_splits\<close>)

lemma step_shouldLoadAttachment:
  "shouldLoadAttachment (fst (step x p e (s, log))) =
     (case e of ModalShow \<Rightarrow> True | ModalHide \<Rightarrow> False | _ \<Rightarrow> shouldLoadAttachment s)"
proof (cases "handle x p e s")
  case (Inl err)
  then show ?thesis by (cases e) auto
next
  case (Inr r)
  then obtain s' effs where h: "handle x p e s = Inr (s', effs)" by (cases r) auto
  from handle_shouldLoadAttachment [OF h] h show ?thesis by simp
qed

lemma run_shouldLoadAttachment:
  "shouldLoadAttachment (fst (run x p evs c)) =
     (case last_hook evs of
        None \<Rightarrow> shouldLoadAttachment (fst c)
      | Some h \<Rightarrow> h = ModalShow)"
proof (induction evs arbitrary: c)
  case Nil
  show ?case by simp
next
  case (Cons e es)
  obtain s log where c: "c = (s, log)" by (cases c)
  show ?case
    unfolding c
    by (cases e) (auto simp add: Cons.IH step_shouldLoadAttachment simp del: step.simps
          split: option.splits)
qed

text \<open>
  Once the replace item has stored its callback, no event removes it, and an event makes
  the stored navigation call exactly when it is a hide of the surface.
\<close>

lemma handle_keeps_queued:
  assumes "handle x p e s = Inr (s', effs)"
    and "onModalHideCallbackRef s = Some (queued_action p)"
  shows "onModalHideCallbackRef s' = Some (queued_action p)"
proof (cases e)
  case (DisplayFileInModal d)
  with assms show ?thesis
    by (auto split: sum.splits dest: validate_keeps(2))
next
  case (Select captured item)
  with assms show ?thesis
    by (cases item) (auto simp add: closeModal_def queued_action_def split: sum.splits)
qed (use assms in \<open>auto simp add: openModal_def closeModal_def submitAndClose_def
      modal_onModalShow_def modal_onModalHide_def onNavigate_def
      updateConfirmButtonVisibility_def setDownloadButtonVisibility_def
      deleteAndCloseModal_def closeConfirmModal_def split: sum.splits if_splits\<close>)

lemma handle_navigations:
  assumes "handle x p e s = Inr (s', effs)"
    and "onModalHideCallbackRef s = Some (queued_action p)"
  shows "count_list effs (Navigation_navigate_EDIT_REQUEST (reportID (props_report p))) =
           count_list [e] ModalHide"
proof (cases e)
  case (Select captured item)
  with assms show ?thesis
    by (cases item) (auto simp add: downloadAttachment_def Let_def split: sum.splits option.splits)
qed (use assms in \<open>auto simp add: submitAndClose_def
      modal_onModalShow_def modal_onModalHide_def onNavigate_def queued_action_def
      updateConfirmButtonVisibility_def downloadAttachment_def Let_def
      deleteAndCloseModal_def split: sum.splits if_splits option.splits\<close>)

lemma run_after_queueing:
  assumes "onModalHideCallbackRef s = Some (queued_action p)"
  shows "onModalHideCallbackRef (fst (run x p evs (s, log))) = Some (queued_action p) \<and>
         count_list (snd (run x p evs (s, log)))
             (Navigation_navigate_EDIT_REQUEST (reportID (props_report p))) =
           count_list log (Navigation_navigate_EDIT_REQUEST (reportID (props_report p))) +
           count_list evs ModalHide"
  using assms
proof (induction evs arbitrary: s log)
  case Nil
  then show ?case by simp
next
  case (Cons e es)
  show ?case
  proof (cases "handle x p e s")
    case (Inl err)
    then have "e \<noteq> ModalHide" by auto
    with Inl Cons.IH [OF Cons.prems, of log] show ?thesis by simp
  next
    case (Inr r)
    then obtain s' effs where h: "handle x p e s = Inr (s', effs)" by (cases r) auto
    note q = handle_keeps_queued [OF h Cons.prems]
    from handle_navigations [OF h Cons.prems] Cons.IH [OF q, of "log @ effs"] h
    show ?thesis by simp
  qed
qed

section \<open>The deferred action (C1)\<close>

text \<open>
  C1, as stated: once the replace item has queued its action and the modal has closed, the
  action runs strictly after the hide hook, exactly once per queued request, and is then
  cleared, so that a later close does not run it again.

  The handler of the hide transition calls \<^verbatim>\<open>props.onModalHide\<close>, then the stored
  callback, and never writes the ref. In the run below the replace item is in the menu and
  is selected once; the modal is hidden, shown again, closed and hidden again; the
  navigation is called twice, and the callback is still stored after the first hide.
\<close>

theorem deferred_action_cleared_counterexample:
  "threeDotsMenuItems demo_externals (demo_props ''open'')
       (fst (run demo_externals (demo_props ''open'') [ModalShow, CarouselNavigate demo_receipt]
               (initial_state (demo_props ''open''), []))) =
     Inr [Replace, Download, Delete_receipt]
   \<and> snd (run demo_externals (demo_props ''open'')
            [ModalShow, CarouselNavigate demo_receipt,
             Select (initial_state (demo_props ''open'')) Replace, ModalHide,
             Show, ModalShow, Close, ModalHide]
            (initial_state (demo_props ''open''), [])) =
     [Props_onModalShow, Props_onCarouselAttachmentChange demo_receipt,
      Props_onModalHide, Navigation_navigate_EDIT_REQUEST (Some ''r1''),
      Props_onModalShow,
      Props_onModalHide, Navigation_navigate_EDIT_REQUEST (Some ''r1'')]
   \<and> onModalHideCallbackRef
       (fst (run demo_externals (demo_props ''open'')
               [ModalShow, CarouselNavigate demo_receipt,
                Select (initial_state (demo_props ''open'')) Replace, ModalHide]
               (initial_state (demo_props ''open''), []))) =
     Some (Navigate_edit_receipt (Some ''r1''))"
  by (simp add: demo_defs callback_defs threeDotsMenuItems_def parentReportAction_of_def
        isRequestor_of_def lodashGet_accountID_def)

text \<open>
  C1, amended: selecting the replace item stores the navigation as the deferred action and
  closes the modal, making no call itself. From then on, whatever events follow, the action
  stays stored; each hide of the surface calls the hide hook first and then the stored
  action, once, so the number of navigation calls made equals the number of hides; and a
  further hide does the same again and still leaves the action stored.
\<close>

theorem deferred_action_runs_on_every_hide:
  "\<exists>s1. onSelected x p captured Replace s = Inr (s1, []) \<and>
        \<not> isModalOpen s1 \<and>
        onModalHideCallbackRef s1 = Some (queued_action p) \<and>
        (\<forall>evs.
           onModalHideCallbackRef (fst (run x p evs (s1, []))) = Some (queued_action p) \<and>
           count_list (snd (run x p evs (s1, [])))
               (Navigation_navigate_EDIT_REQUEST (reportID (props_report p))) =
             count_list evs ModalHide \<and>
           snd (modal_onModalHide (fst (run x p evs (s1, [])))) =
             [Props_onModalHide, Navigation_navigate_EDIT_REQUEST (reportID (props_report p))] \<and>
           onModalHideCallbackRef (fst (modal_onModalHide (fst (run x p evs (s1, []))))) =
             Some (queued_action p))"
proof -
  let ?s1 = "closeModal (s\<lparr>onModalHideCallbackRef := Some (queued_action p)\<rparr>)"
  have q: "onModalHideCallbackRef ?s1 = Some (queued_action p)"
    by (simp add: closeModal_def)
  have sel: "onSelected x p captured Replace s = Inr (?s1, [])"
    by (simp add: queued_action_def)
  have closed: "\<not> isModalOpen ?s1"
    by (simp add: closeModal_def)
  have later: "onModalHideCallbackRef (fst (run x p evs (?s1, []))) = Some (queued_action p) \<and>
      count_list (snd (run x p evs (?s1, [])))
          (Navigation_navigate_EDIT_REQUEST (reportID (props_report p))) =
        count_list evs ModalHide" for evs
    using run_after_queueing [OF q, of x evs "[]"] by simp
  have hide: "snd (modal_onModalHide t) =
        [Props_onModalHide, Navigation_navigate_EDIT_REQUEST (reportID (props_report p))] \<and>
      onModalHideCallbackRef (fst (modal_onModalHide t)) = Some (queued_action p)"
    if "onModalHideCallbackRef t = Some (queued_action p)" for t
    using that by (simp add: modal_onModalHide_def queued_action_def)
  show ?thesis
    using sel closed q later hide by blast
qed

theorem deferred_action_runs_on_every_hide_witness:
  "count_list
     (snd (run demo_externals (demo_props ''open'') [ModalHide, Show, ModalShow, Close, ModalHide]
             (closeModal ((initial_state (demo_props ''open''))
                \<lparr>onModalHideCallbackRef := Some (queued_action (demo_props ''open''))\<rparr>), [])))
     (Navigation_navigate_EDIT_REQUEST (Some ''r1'')) = 2"
  using deferred_action_runs_on_every_hide
    [of demo_externals "demo_props ''open''" "initial_state (demo_props ''open'')"
        "initial_state (demo_props ''open'')"]
  by (simp add: demo_defs callback_defs)

section \<open>The receipt menu of a settled parent (C2)\<close>




section \<open>Order of the validation rules (C3)\<close>

text \<open>
  C3: the rules are applied in order, directory first, then too large, then too small, and
  the first that fails decides. A payload whose entry is a directory is rejected with the
  folder message whatever its size; a file that passed the directory check and is over the
  maximum is rejected as too large whatever the minimum; only a file that is not over the
  maximum can be rejected as too small.
\<close>

theorem validation_rule_order:
  "(\<forall>e. webkitGetAsEntry d = Some (Some e) \<and> isDirectory e \<longrightarrow>
      validateAndDisplayFileToUpload x d s =
        Inr (reject ''attachmentPicker.attachmentError'' ''attachmentPicker.folderNotAllowedMessage'' s))
   \<and> (isDirectoryCheck d s = Inr (True, s) \<and> fileObject_of d = Some f \<and> MAX_SIZE x < lodashGet_size f \<longrightarrow>
      validateAndDisplayFileToUpload x d s =
        Inr (reject ''attachmentPicker.attachmentTooLarge'' ''attachmentPicker.sizeExceeded'' s))
   \<and> (isDirectoryCheck d s = Inr (True, s) \<and> fileObject_of d = Some f \<and>
        \<not> MAX_SIZE x < lodashGet_size f \<and> lodashGet_size f < MIN_SIZE x \<longrightarrow>
      validateAndDisplayFileToUpload x d s =
        Inr (reject ''attachmentPicker.attachmentTooSmall'' ''attachmentPicker.sizeNotMet'' s))"
  by (simp add: validateAndDisplayFileToUpload_def isDirectoryCheck_def isValidFile_def reject_def)

theorem validation_rule_order_witness:
  "validateAndDisplayFileToUpload demo_externals
       (demo_drop True (Some (demo_file ''big.png'' 1000 True)))
       (initial_state (demo_props ''open'')) =
     Inr (reject ''attachmentPicker.attachmentError'' ''attachmentPicker.folderNotAllowedMessage''
            (initial_state (demo_props ''open'')))
   \<and> validateAndDisplayFileToUpload demo_externals
       (demo_drop False (Some (demo_file ''big.png'' 1000 True)))
       (initial_state (demo_props ''open'')) =
     Inr (reject ''attachmentPicker.attachmentTooLarge'' ''attachmentPicker.sizeExceeded''
            (initial_state (demo_props ''open'')))
   \<and> validateAndDisplayFileToUpload demo_externals
       (demo_picked (demo_file ''test.png'' 0 True))
       (initial_state (demo_props ''open'')) =
     Inr (reject ''attachmentPicker.attachmentTooSmall'' ''attachmentPicker.sizeNotMet''
            (initial_state (demo_props ''open'')))"
  using validation_rule_order
      [of "demo_drop True (Some (demo_file ''big.png'' 1000 True))" demo_externals
          "initial_state (demo_props ''open'')" "demo_file ''big.png'' 1000 True"]
    validation_rule_order
      [of "demo_drop False (Some (demo_file ''big.png'' 1000 True))" demo_externals
          "initial_state (demo_props ''open'')" "demo_file ''big.png'' 1000 True"]
    validation_rule_order
      [of "demo_picked (demo_file ''test.png'' 0 True)" demo_externals
          "initial_state (demo_props ''open'')" "demo_file ''test.png'' 0 True"]
  by (simp add: demo_drop_def demo_picked_def demo_file_def demo_externals_def
        isDirectoryCheck_def fileObject_of_def lodashGet_size_def)

section \<open>Files over the maximum (C4)\<close>

text \<open>
  C4: a file whose size exceeds the maximum fails the size check with the too-large title
  and the size-exceeded reason; the pipeline then adopts nothing: source, file, modal
  visibility and modal type are what they were.
\<close>

theorem too_large_rejected:
  assumes "file_size f = Some n" and "MAX_SIZE x < n"
  shows "isValidFile x f s =
           (False, reject ''attachmentPicker.attachmentTooLarge'' ''attachmentPicker.sizeExceeded'' s)
         \<and> (\<forall>d. isDirectoryCheck d s = Inr (True, s) \<and> fileObject_of d = Some f \<longrightarrow>
               (\<exists>s'. validateAndDisplayFileToUpload x d s = Inr s' \<and>
                     isAttachmentInvalid s' \<and>
                     attachmentInvalidReasonTitle s' = ''attachmentPicker.attachmentTooLarge'' \<and>
                     attachmentInvalidReason s' = Some ''attachmentPicker.sizeExceeded'' \<and>
                     source s' = source s \<and> file_state s' = file_state s \<and>
                     isModalOpen s' = isModalOpen s \<and> modalType s' = modalType s))"
proof -
  from assms have big: "MAX_SIZE x < lodashGet_size f"
    by (simp add: lodashGet_size_def)
  then have v: "isValidFile x f s =
      (False, reject ''attachmentPicker.attachmentTooLarge'' ''attachmentPicker.sizeExceeded'' s)"
    by (rule isValidFile_too_large)
  show ?thesis
    using v by (simp add: validate_after_directory_check reject_keeps)
qed

theorem too_large_rejected_witness:
  "file_size (demo_file ''big.png'' 101 True) = Some 101
   \<and> MAX_SIZE demo_externals < 101
   \<and> isValidFile demo_externals (demo_file ''big.png'' 101 True) (initial_state (demo_props ''open'')) =
       (False, reject ''attachmentPicker.attachmentTooLarge'' ''attachmentPicker.sizeExceeded''
                 (initial_state (demo_props ''open'')))
   \<and> (\<exists>s'. validateAndDisplayFileToUpload demo_externals
              (demo_picked (demo_file ''big.png'' 101 True)) (initial_state (demo_props ''open'')) = Inr s'
           \<and> source s' = source (initial_state (demo_props ''open''))
           \<and> file_state s' = file_state (initial_state (demo_props ''open'')))"
proof -
  have a: "file_size (demo_file ''big.png'' 101 True) = Some 101"
    by (simp add: demo_file_def)
  have b: "MAX_SIZE demo_externals < 101"
    by (simp add: demo_externals_def)
  have c: "isDirectoryCheck (demo_picked (demo_file ''big.png'' 101 True))
             (initial_state (demo_props ''open'')) = Inr (True, initial_state (demo_props ''open''))"
    by (simp add: isDirectoryCheck_def demo_picked_def)
  have d: "fileObject_of (demo_picked (demo_file ''big.png'' 101 True)) =
             Some (demo_file ''big.png'' 101 True)"
    by (simp add: fileObject_of_def demo_picked_def)
  from too_large_rejected [OF a b, of "initial_state (demo_props ''open'')"] a b c d
  show ?thesis by blast
qed

section \<open>Files under the minimum (C5)\<close>

text \<open>
  C5: a file whose size is below the minimum, a file of 0 bytes included, fails the size
  check with the too-small title and the size-not-met reason, and the source keeps its
  value. The configured minimum is taken not to exceed the configured maximum, the
  too-large rule being tried first.
\<close>

theorem too_small_rejected:
  assumes "file_size f = Some n" and "n < MIN_SIZE x" and "MIN_SIZE x \<le> MAX_SIZE x"
  shows "isValidFile x f s =
           (False, reject ''attachmentPicker.attachmentTooSmall'' ''attachmentPicker.sizeNotMet'' s)
         \<and> (\<forall>d. isDirectoryCheck d s = Inr (True, s) \<and> fileObject_of d = Some f \<longrightarrow>
               (\<exists>s'. validateAndDisplayFileToUpload x d s = Inr s' \<and>
                     isAttachmentInvalid s' \<and>
                     attachmentInvalidReasonTitle s' = ''attachmentPicker.attachmentTooSmall'' \<and>
                     attachmentInvalidReason s' = Some ''attachmentPicker.sizeNotMet'' \<and>
                     source s' = source s \<and> file_state s' = file_state s \<and>
                     isModalOpen s' = isModalOpen s \<and> modalType s' = modalType s))"
proof -
  from assms have small: "lodashGet_size f < MIN_SIZE x" and notbig: "\<not> MAX_SIZE x < lodashGet_size f"
    by (simp_all add: lodashGet_size_def)
  then have v: "isValidFile x f s =
      (False, reject ''attachmentPicker.attachmentTooSmall'' ''attachmentPicker.sizeNotMet'' s)"
    by (simp add: isValidFile_too_small)
  show ?thesis
    using v by (simp add: validate_after_directory_check reject_keeps)
qed

theorem too_small_rejected_witness:
  "file_size (demo_file ''test.png'' 0 True) = Some 0
   \<and> 0 < MIN_SIZE demo_externals \<and> MIN_SIZE demo_externals \<le> MAX_SIZE demo_externals
   \<and> isValidFile demo_externals (demo_file ''test.png'' 0 True) (initial_state (demo_props ''open'')) =
       (False, reject ''attachmentPicker.attachmentTooSmall'' ''attachmentPicker.sizeNotMet''
                 (initial_state (demo_props ''open'')))
   \<and> (\<exists>s'. validateAndDisplayFileToUpload demo_externals
              (demo_picked (demo_file ''test.png'' 0 True)) (initial_state (demo_props ''open'')) = Inr s'
           \<and> attachmentInvalidReason s' = Some ''attachmentPicker.sizeNotMet''
           \<and> source s' = source (initial_state (demo_props ''open'')))"
proof -
  have a: "file_size (demo_file ''test.png'' 0 True) = Some 0"
    by (simp add: demo_file_def)
  have b: "0 < MIN_SIZE demo_externals"
    by (simp add: demo_externals_def)
  have b': "MIN_SIZE demo_externals \<le> MAX_SIZE demo_externals"
    by (simp add: demo_externals_def)
  have c: "isDirectoryCheck (demo_picked (demo_file ''test.png'' 0 True))
             (initial_state (demo_props ''open'')) = Inr (True, initial_state (demo_props ''open''))"
    by (simp add: isDirectoryCheck_def demo_picked_def)
  have d: "fileObject_of (demo_picked (demo_file ''test.png'' 0 True)) =
             Some (demo_file ''test.png'' 0 True)"
    by (simp add: fileObject_of_def demo_picked_def)
  from too_small_rejected [OF a b b', of "initial_state (demo_props ''open'')"] a b b' c d
  show ?thesis by blast
qed

section \<open>Files within the bounds (C6)\<close>

text \<open>
  The two conditions on the payload that the statement below uses, read off the payload
  itself. The payload is not a directory: \<^verbatim>\<open>webkitGetAsEntry\<close> is not a function, or
  it returns an entry that is not a directory. The payload carries the file \<open>f\<close>:
  \<^verbatim>\<open>getAsFile\<close> is a function and returns \<open>f\<close>, or it is not a function and the
  payload is \<open>f\<close> itself. Under them the directory check passes without writing
  anything and the size check is given \<open>f\<close>.
\<close>

lemma non_directory_passes_check:
  assumes "webkitGetAsEntry d = None \<or>
           (\<exists>e. webkitGetAsEntry d = Some (Some e) \<and> \<not> isDirectory e)"
  shows "isDirectoryCheck d s = Inr (True, s)"
  using assms by (auto simp add: isDirectoryCheck_def)

lemma carried_file_is_checked:
  assumes "getAsFile d = Some (Some f) \<or> (getAsFile d = None \<and> as_file_object d = f)"
  shows "fileObject_of d = Some f"
  using assms by (auto simp add: fileObject_of_def)

text \<open>
  A payload whose \<^verbatim>\<open>webkitGetAsEntry()\<close> returns \<^verbatim>\<open>null\<close> is no file entry at
  all; for it the directory check throws whatever else the payload holds (see C9).
\<close>

lemma null_entry_throws:
  assumes "webkitGetAsEntry d = Some None"
  shows "validateAndDisplayFileToUpload x d s = Inl TypeError"
  using assms by (simp add: validateAndDisplayFileToUpload_def isDirectoryCheck_def)

text \<open>
  C6: a payload that is not a directory and carries a file whose size is between the
  minimum and the maximum, both included, is accepted: the modal opens, no dialog is
  raised, and the file becomes the file of record with its source. For a \<^verbatim>\<open>File\<close>
  the file of record carries the cleaned name (and is the very file when the name was
  clean already) and the source is its object URL; otherwise the file of record is the
  object itself and the source is its \<^verbatim>\<open>uri\<close>. The modal type is the one of the new
  source and file.
\<close>

theorem valid_file_displayed:
  assumes "webkitGetAsEntry d = None \<or>
           (\<exists>e. webkitGetAsEntry d = Some (Some e) \<and> \<not> isDirectory e)"
    and "getAsFile d = Some (Some f) \<or> (getAsFile d = None \<and> as_file_object d = f)"
    and "MIN_SIZE x \<le> lodashGet_size f" and "lodashGet_size f \<le> MAX_SIZE x"
  shows "\<exists>s' g. validateAndDisplayFileToUpload x d s = Inr s' \<and>
           isModalOpen s' \<and> file_state s' = Some g \<and>
           isAttachmentInvalid s' = isAttachmentInvalid s \<and>
           attachmentInvalidReasonTitle s' = attachmentInvalidReasonTitle s \<and>
           attachmentInvalidReason s' = attachmentInvalidReason s \<and>
           modalType s' = getModalType x (case source s' of Url u \<Rightarrow> Some u | _ \<Rightarrow> None) (Some g) \<and>
           (if is_File f
            then file_name g = Some (cleanFileName x (file_name f)) \<and>
                 file_size g = file_size f \<and> file_type g = file_type f \<and> is_File g \<and>
                 (file_name f = Some (cleanFileName x (file_name f)) \<longrightarrow> g = f) \<and>
                 source s' = Url (createObjectURL x g)
            else g = f \<and>
                 source s' = (case file_uri f of None \<Rightarrow> No_source | Some u \<Rightarrow> Url u))"
proof -
  note dir = non_directory_passes_check [OF assms(1), of s]
  note fo = carried_file_is_checked [OF assms(2)]
  from assms(3,4) have v: "isValidFile x f s = (True, s)"
    by (simp add: isValidFile_in_bounds)
  have r: "validateAndDisplayFileToUpload x d s = Inr (display_valid_file x f s)"
    using v by (simp add: validate_after_directory_check [OF dir fo])
  show ?thesis
    unfolding r
    by (cases "file_uri f") (auto simp add: display_valid_file_def renamed_File_def Let_def)
qed

text \<open>
  Three payloads: a \<^verbatim>\<open>File\<close> with an unclean name dropped as an item whose entry is
  not a directory and handed over by \<^verbatim>\<open>getAsFile()\<close>; a picked \<^verbatim>\<open>File\<close> of
  exactly the maximum size with a clean name; and a picked object that is not a
  \<^verbatim>\<open>File\<close>, of exactly the minimum size, named as a PDF.
\<close>

theorem valid_file_displayed_witness:
  "(\<exists>s' g. validateAndDisplayFileToUpload demo_externals
              (demo_drop False (Some (demo_file ''re#ceipt.png'' 50 True)))
              (initial_state ((demo_props ''open'')\<lparr>defaultOpen := False\<rparr>)) = Inr s'
         \<and> isModalOpen s' \<and> \<not> isAttachmentInvalid s' \<and> file_state s' = Some g
         \<and> file_name g = Some ''receipt.png'' \<and> file_size g = Some 50
         \<and> source s' = Url ''blob:receipt.png'' \<and> modalType s' = CENTERED)
   \<and> (\<exists>s'. validateAndDisplayFileToUpload demo_externals
              (demo_picked (demo_file ''max.png'' 100 True))
              (initial_state ((demo_props ''open'')\<lparr>defaultOpen := False\<rparr>)) = Inr s'
         \<and> isModalOpen s' \<and> \<not> isAttachmentInvalid s'
         \<and> file_state s' = Some (demo_file ''max.png'' 100 True)
         \<and> source s' = Url ''blob:max.png'' \<and> modalType s' = CENTERED)
   \<and> (\<exists>s'. validateAndDisplayFileToUpload demo_externals
              (demo_picked (demo_file ''doc.pdf'' 10 False))
              (initial_state ((demo_props ''open'')\<lparr>defaultOpen := False\<rparr>)) = Inr s'
         \<and> isModalOpen s' \<and> \<not> isAttachmentInvalid s'
         \<and> file_state s' = Some (demo_file ''doc.pdf'' 10 False)
         \<and> source s' = Url ''file:///tmp/doc.pdf'' \<and> modalType s' = CENTERED_UNSWIPEABLE)"
proof -
  let ?s = "initial_state ((demo_props ''open'')\<lparr>defaultOpen := False\<rparr>)"
  have quiet: "\<not> isAttachmentInvalid ?s"
    by (simp add: initial_state_def)
  have first: "\<exists>s' g. validateAndDisplayFileToUpload demo_externals
              (demo_drop False (Some (demo_file ''re#ceipt.png'' 50 True))) ?s = Inr s'
         \<and> isModalOpen s' \<and> \<not> isAttachmentInvalid s' \<and> file_state s' = Some g
         \<and> file_name g = Some ''receipt.png'' \<and> file_size g = Some 50
         \<and> source s' = Url ''blob:receipt.png'' \<and> modalType s' = CENTERED"
  proof -
    let ?f = "demo_file ''re#ceipt.png'' 50 True"
    let ?d = "demo_drop False (Some ?f)"
    have a: "webkitGetAsEntry ?d = None \<or>
             (\<exists>e. webkitGetAsEntry ?d = Some (Some e) \<and> \<not> isDirectory e)"
      by (simp add: demo_drop_def)
    have b: "getAsFile ?d = Some (Some ?f) \<or> (getAsFile ?d = None \<and> as_file_object ?d = ?f)"
      by (simp add: demo_drop_def)
    have c: "MIN_SIZE demo_externals \<le> lodashGet_size ?f"
      by (simp add: demo_externals_def lodashGet_size_def demo_file_def)
    have d: "lodashGet_size ?f \<le> MAX_SIZE demo_externals"
      by (simp add: demo_externals_def lodashGet_size_def demo_file_def)
    have e: "is_File ?f" "cleanFileName demo_externals (file_name ?f) = ''receipt.png''"
      "file_size ?f = Some 50"
      by (simp_all add: demo_externals_def demo_file_def)
    from valid_file_displayed [OF a b c d, of ?s] obtain s' g where
      r: "validateAndDisplayFileToUpload demo_externals ?d ?s = Inr s'"
         "isModalOpen s'" "file_state s' = Some g"
         "isAttachmentInvalid s' = isAttachmentInvalid ?s"
         "modalType s' =
            getModalType demo_externals (case source s' of Url u \<Rightarrow> Some u | _ \<Rightarrow> None) (Some g)"
         "file_name g = Some (cleanFileName demo_externals (file_name ?f))"
         "file_size g = file_size ?f"
         "source s' = Url (createObjectURL demo_externals g)"
      using e(1) by auto
    from r(6) e(2) have n: "file_name g = Some ''receipt.png''" by simp
    then have u: "createObjectURL demo_externals g = ''blob:receipt.png''"
      by (simp add: demo_externals_def)
    have m: "modalType s' = CENTERED"
      using r(5) r(8) u n
      by (simp add: getModalType_def name_or_unknown_def demo_externals_def)
    from r n u e(3) m quiet show ?thesis by auto
  qed
  have second: "\<exists>s'. validateAndDisplayFileToUpload demo_externals
              (demo_picked (demo_file ''max.png'' 100 True)) ?s = Inr s'
         \<and> isModalOpen s' \<and> \<not> isAttachmentInvalid s'
         \<and> file_state s' = Some (demo_file ''max.png'' 100 True)
         \<and> source s' = Url ''blob:max.png'' \<and> modalType s' = CENTERED"
  proof -
    let ?f = "demo_file ''max.png'' 100 True"
    let ?d = "demo_picked ?f"
    have a: "webkitGetAsEntry ?d = None \<or>
             (\<exists>e. webkitGetAsEntry ?d = Some (Some e) \<and> \<not> isDirectory e)"
      by (simp add: demo_picked_def)
    have b: "getAsFile ?d = Some (Some ?f) \<or> (getAsFile ?d = None \<and> as_file_object ?d = ?f)"
      by (simp add: demo_picked_def)
    have c: "MIN_SIZE demo_externals \<le> lodashGet_size ?f"
      by (simp add: demo_externals_def lodashGet_size_def demo_file_def)
    have d: "lodashGet_size ?f \<le> MAX_SIZE demo_externals"
      by (simp add: demo_externals_def lodashGet_size_def demo_file_def)
    have e: "is_File ?f" "file_name ?f = Some (cleanFileName demo_externals (file_name ?f))"
      by (simp_all add: demo_externals_def demo_file_def)
    from valid_file_displayed [OF a b c d, of ?s] obtain s' g where
      r: "validateAndDisplayFileToUpload demo_externals ?d ?s = Inr s'"
         "isModalOpen s'" "file_state s' = Some g"
         "isAttachmentInvalid s' = isAttachmentInvalid ?s"
         "modalType s' =
            getModalType demo_externals (case source s' of Url u \<Rightarrow> Some u | _ \<Rightarrow> None) (Some g)"
         "g = ?f"
         "source s' = Url (createObjectURL demo_externals g)"
      using e by auto
    have u: "createObjectURL demo_externals ?f = ''blob:max.png''"
      by (simp add: demo_externals_def demo_file_def)
    have m: "modalType s' = CENTERED"
      using r(5) r(6) r(7) u
      by (simp add: getModalType_def name_or_unknown_def demo_externals_def demo_file_def)
    from r u m quiet show ?thesis by auto
  qed
  have third: "\<exists>s'. validateAndDisplayFileToUpload demo_externals
              (demo_picked (demo_file ''doc.pdf'' 10 False)) ?s = Inr s'
         \<and> isModalOpen s' \<and> \<not> isAttachmentInvalid s'
         \<and> file_state s' = Some (demo_file ''doc.pdf'' 10 False)
         \<and> source s' = Url ''file:///tmp/doc.pdf'' \<and> modalType s' = CENTERED_UNSWIPEABLE"
  proof -
    let ?f = "demo_file ''doc.pdf'' 10 False"
    let ?d = "demo_picked ?f"
    have a: "webkitGetAsEntry ?d = None \<or>
             (\<exists>e. webkitGetAsEntry ?d = Some (Some e) \<and> \<not> isDirectory e)"
      by (simp add: demo_picked_def)
    have b: "getAsFile ?d = Some (Some ?f) \<or> (getAsFile ?d = None \<and> as_file_object ?d = ?f)"
      by (simp add: demo_picked_def)
    have c: "MIN_SIZE demo_externals \<le> lodashGet_size ?f"
      by (simp add: demo_externals_def lodashGet_size_def demo_file_def)
    have d: "lodashGet_size ?f \<le> MAX_SIZE demo_externals"
      by (simp add: demo_externals_def lodashGet_size_def demo_file_def)
    have e: "\<not> is_File ?f" "file_uri ?f = Some ''file:///tmp/doc.pdf''"
      by (simp_all add: demo_file_def)
    from valid_file_displayed [OF a b c d, of ?s] obtain s' g where
      r: "validateAndDisplayFileToUpload demo_externals ?d ?s = Inr s'"
         "isModalOpen s'" "file_state s' = Some g"
         "isAttachmentInvalid s' = isAttachmentInvalid ?s"
         "modalType s' =
            getModalType demo_externals (case source s' of Url u \<Rightarrow> Some u | _ \<Rightarrow> None) (Some g)"
         "g = ?f"
         "source s' = (case file_uri ?f of None \<Rightarrow> No_source | Some u \<Rightarrow> Url u)"
      using e(1) by auto
    from r(7) e(2) have u: "source s' = Url ''file:///tmp/doc.pdf''" by simp
    have m: "modalType s' = CENTERED_UNSWIPEABLE"
      using r(5) r(6) u
      by (simp add: getModalType_def name_or_unknown_def demo_externals_def demo_file_def)
    from r u m quiet show ?thesis by auto
  qed
  from first second third show ?thesis by blast
qed

section \<open>Submitting (C7)\<close>

text \<open>
  C7: \<^verbatim>\<open>submitAndClose\<close> does nothing when the modal is closed or the confirm button
  is disabled. Otherwise, when the caller supplied \<^verbatim>\<open>onConfirm\<close>, it calls it once,
  with the current file extended by the current source, and closes the modal; when the
  caller supplied none, it only closes the modal.
\<close>

theorem submitAndClose_behaviour:
  "(\<not> isModalOpen s \<or> isConfirmButtonDisabled s \<longrightarrow> submitAndClose p s = (s, []))
   \<and> (isModalOpen s \<and> \<not> isConfirmButtonDisabled s \<and> onConfirm_given p \<longrightarrow>
        (\<exists>s' payload. submitAndClose p s = (s', [Props_onConfirm payload]) \<and>
           \<not> isModalOpen s' \<and>
           file_source payload = Some (source s) \<and>
           (\<forall>g. file_state s = Some g \<longrightarrow> payload = g\<lparr>file_source := Some (source s)\<rparr>) \<and>
           source s' = source s \<and> shouldLoadAttachment s' = shouldLoadAttachment s))
   \<and> (isModalOpen s \<and> \<not> isConfirmButtonDisabled s \<and> \<not> onConfirm_given p \<longrightarrow>
        submitAndClose p s = (s\<lparr>isModalOpen := False\<rparr>, []))"
  by (auto simp add: submitAndClose_def lodashExtend_def split: option.splits)

theorem submitAndClose_behaviour_witness:
  "submitAndClose (demo_props ''open'') (closeModal (initial_state (demo_props ''open''))) =
     (closeModal (initial_state (demo_props ''open'')), [])
   \<and> snd (submitAndClose (demo_props ''open'') (initial_state (demo_props ''open''))) =
     [Props_onConfirm \<lparr>file_name = Some ''receipt.jpg'', file_size = None, file_uri = None,
                       file_type = None,
                       file_source = Some (Url ''https://example.test/receipt.jpg''),
                       is_File = False\<rparr>]
   \<and> \<not> isModalOpen (fst (submitAndClose (demo_props ''open'') (initial_state (demo_props ''open''))))"
proof -
  let ?p = "demo_props ''open''"
  have a: "\<not> isModalOpen (closeModal (initial_state ?p))"
    by (simp add: closeModal_def)
  have b: "isModalOpen (initial_state ?p)" "\<not> isConfirmButtonDisabled (initial_state ?p)"
    "onConfirm_given ?p"
    by (simp_all add: initial_state_def demo_props_def)
  have c: "file_state (initial_state ?p) =
      Some \<lparr>file_name = Some ''receipt.jpg'', file_size = None, file_uri = None,
            file_type = None, file_source = None, is_File = False\<rparr>"
    "source (initial_state ?p) = Url ''https://example.test/receipt.jpg''"
    by (simp_all add: initial_state_def demo_props_def)
  from submitAndClose_behaviour [of "closeModal (initial_state ?p)" ?p] a
  have 1: "submitAndClose ?p (closeModal (initial_state ?p)) = (closeModal (initial_state ?p), [])"
    by blast
  from submitAndClose_behaviour [of "initial_state ?p" ?p] b c
  have 2: "snd (submitAndClose ?p (initial_state ?p)) =
     [Props_onConfirm \<lparr>file_name = Some ''receipt.jpg'', file_size = None, file_uri = None,
                       file_type = None,
                       file_source = Some (Url ''https://example.test/receipt.jpg''),
                       is_File = False\<rparr>]
     \<and> \<not> isModalOpen (fst (submitAndClose ?p (initial_state ?p)))"
    by auto
  from 1 2 show ?thesis by simp
qed

section \<open>The loading flag (C8)\<close>

text \<open>
  C8, as stated: in every reachable state \<open>shouldLoadAttachment\<close> is true only while
  \<open>isModalOpen\<close> is true.

  \<^verbatim>\<open>closeModal\<close> clears \<open>isModalOpen\<close> at once, while the flag is cleared only by
  the hide hook, after the exit transition. After the surface has shown and the user has
  closed it, the modal is closed and the flag is still set.
\<close>

theorem loading_flag_counterexample:
  "\<not> isModalOpen (fst (run demo_externals (demo_props ''open'') [ModalShow, Close]
                         (initial_state (demo_props ''open''), [])))
   \<and> shouldLoadAttachment (fst (run demo_externals (demo_props ''open'') [ModalShow, Close]
                         (initial_state (demo_props ''open''), [])))"
  by (simp add: callback_defs)

text \<open>
  C8, amended: in every reachable state \<open>shouldLoadAttachment\<close> is true exactly when
  the surface has fired a hook and the most recent one is the show hook. It is false
  initially, set by the show hook, cleared by the hide hook, and written by nothing else;
  closing the modal leaves it set until the hide hook runs.
\<close>

theorem shouldLoadAttachment_between_hooks:
  "shouldLoadAttachment (fst (run x p evs (initial_state p, []))) = (last_hook evs = Some ModalShow)"
  by (auto simp add: run_shouldLoadAttachment initial_state_def split: option.splits)

theorem shouldLoadAttachment_between_hooks_witness:
  "shouldLoadAttachment (fst (run demo_externals (demo_props ''open'') [ModalShow, Close]
                         (initial_state (demo_props ''open''), [])))
   \<and> \<not> shouldLoadAttachment (fst (run demo_externals (demo_props ''open'') [ModalShow, Close, ModalHide]
                         (initial_state (demo_props ''open''), [])))"
  using shouldLoadAttachment_between_hooks [of demo_externals "demo_props ''open''" "[ModalShow, Close]"]
    shouldLoadAttachment_between_hooks [of demo_externals "demo_props ''open''" "[ModalShow, Close, ModalHide]"]
  by simp

section \<open>A payload without a file object (C9)\<close>

text \<open>
  When the directory check passes and \<^verbatim>\<open>getAsFile()\<close> returns no file, the
  pipeline returns with the state unchanged, so no dialog is raised, and makes no call.
\<close>

lemma missing_file_object_ignored:
  assumes "isDirectoryCheck d s = Inr (True, s)" and "getAsFile d = Some None"
  shows "validateAndDisplayFileToUpload x d s = Inr s
         \<and> handle x p (DisplayFileInModal d) s = Inr (s, [])"
  using assms by (simp add: validateAndDisplayFileToUpload_def fileObject_of_def)

lemma missing_file_object_ignored_example:
  "validateAndDisplayFileToUpload demo_externals (demo_drop False None)
       (initial_state (demo_props ''open'')) = Inr (initial_state (demo_props ''open''))
   \<and> handle demo_externals (demo_props ''open'') (DisplayFileInModal (demo_drop False None))
       (initial_state (demo_props ''open'')) = Inr (initial_state (demo_props ''open''), [])"
proof -
  have a: "isDirectoryCheck (demo_drop False None) (initial_state (demo_props ''open'')) =
             Inr (True, initial_state (demo_props ''open''))"
    by (simp add: isDirectoryCheck_def demo_drop_def)
  have b: "getAsFile (demo_drop False None) = Some None"
    by (simp add: demo_drop_def)
  from missing_file_object_ignored [OF a b] show ?thesis .
qed

text \<open>
  C9: for every payload that is not a directory and whose \<^verbatim>\<open>getAsFile()\<close> yields no
  file object, \<^verbatim>\<open>validateAndDisplayFileToUpload\<close> returns, with no dialog raised and no
  state changed.

  The guard \<^verbatim>\<open>if (!fileObject) return\<close> is there for this, but the directory check
  runs before it and reads \<^verbatim>\<open>isDirectory\<close> from the result of
  \<^verbatim>\<open>webkitGetAsEntry()\<close> without testing it. For a dragged item that is not a file
  that result is \<^verbatim>\<open>null\<close>, as is the result of \<^verbatim>\<open>getAsFile()\<close>: the callback
  does not return, it throws, and the guard is never reached.
\<close>

theorem text_item_throws:
  "webkitGetAsEntry demo_text_item = Some None
   \<and> getAsFile demo_text_item = Some None
   \<and> validateAndDisplayFileToUpload demo_externals demo_text_item
        (initial_state (demo_props ''open'')) = Inl TypeError"
  by (simp add: demo_text_item_def validateAndDisplayFileToUpload_def isDirectoryCheck_def)

section \<open>Strictness of the bounds (C10)\<close>

text \<open>
  C10: both comparisons are strict. With a minimum that does not exceed the maximum, a
  file of exactly the maximum size and a file of exactly the minimum size pass the size
  check. A file without a size is checked as a file of size 0, and is therefore rejected
  as too small whenever the minimum is positive.
\<close>

theorem size_bounds_are_strict:
  assumes "MIN_SIZE x \<le> MAX_SIZE x"
  shows "(file_size f = Some (MAX_SIZE x) \<longrightarrow> isValidFile x f s = (True, s))
       \<and> (file_size f = Some (MIN_SIZE x) \<longrightarrow> isValidFile x f s = (True, s))
       \<and> (file_size f = None \<longrightarrow> isValidFile x f s = isValidFile x (f\<lparr>file_size := Some 0\<rparr>) s)
       \<and> (file_size f = None \<and> 0 < MIN_SIZE x \<longrightarrow>
            isValidFile x f s =
              (False, reject ''attachmentPicker.attachmentTooSmall'' ''attachmentPicker.sizeNotMet'' s))"
  using assms by (simp add: isValidFile_def lodashGet_size_def reject_def)

theorem size_bounds_are_strict_witness:
  "MIN_SIZE demo_externals \<le> MAX_SIZE demo_externals
   \<and> isValidFile demo_externals (demo_file ''max.png'' 100 True) (initial_state (demo_props ''open'')) =
       (True, initial_state (demo_props ''open''))
   \<and> isValidFile demo_externals (demo_file ''min.png'' 10 True) (initial_state (demo_props ''open'')) =
       (True, initial_state (demo_props ''open''))
   \<and> isValidFile demo_externals (as_file_object (demo_drop False None))
         (initial_state (demo_props ''open'')) =
       (False, reject ''attachmentPicker.attachmentTooSmall'' ''attachmentPicker.sizeNotMet''
                 (initial_state (demo_props ''open'')))"
proof -
  have a: "MIN_SIZE demo_externals \<le> MAX_SIZE demo_externals"
    by (simp add: demo_externals_def)
  have b: "file_size (demo_file ''max.png'' 100 True) = Some (MAX_SIZE demo_externals)"
    "file_size (demo_file ''min.png'' 10 True) = Some (MIN_SIZE demo_externals)"
    "file_size (as_file_object (demo_drop False None)) = None"
    "0 < MIN_SIZE demo_externals"
    by (simp_all add: demo_externals_def demo_file_def demo_drop_def)
  from size_bounds_are_strict [OF a, of "demo_file ''max.png'' 100 True"]
    size_bounds_are_strict [OF a, of "demo_file ''min.png'' 10 True"]
    size_bounds_are_strict [OF a, of "as_file_object (demo_drop False None)"]
    a b
  show ?thesis by blast
qed

end
